theory Spec2Isabelle
  imports Main "HOL-Library.Word" "HOL-Library.Sublist"
begin

unbundle bit_operations_syntax

section \<open>Strings and Python's built-ins\<close>

text \<open>
  The lottery bot (\<^verbatim>\<open>bot.py\<close>) is modelled function by function. A Python \<^verbatim>\<open>str\<close> is a
  \<^typ>\<open>string\<close>; a \<^typ>\<open>char\<close> stands for the code point of the same number, so the model
  covers the code points below 256 (Latin-1). Exceptions are values of \<open>exn\<close>, and a
  function that may raise returns \<open>exn + 'a\<close>. Calls to Discord (channels, messages,
  direct messages) are taken to succeed; a handler in which one raises stops there,
  and the places where the dictionary \<^verbatim>\<open>lotteries\<close> is written are noted below.
\<close>

datatype exn = ValueError | OverflowError | IndexError | AttributeError | JSONDecodeError | OSError

text \<open>\<^verbatim>\<open>str.isspace\<close> on one code point: TAB, LF, VT, FF, CR, FS, GS, RS, US, SPACE, NEL, NBSP.\<close>

definition isspace :: "char \<Rightarrow> bool" where
  "isspace c = (let n = (of_char c :: nat) in
     (9 \<le> n \<and> n \<le> 13) \<or> (28 \<le> n \<and> n \<le> 32) \<or> n = 133 \<or> n = 160)"

text \<open>
  \<^verbatim>\<open>str.strip()\<close>: whitespace is removed at both ends. \<open>trim\<close> does it for any set of
  characters, since \<^verbatim>\<open>int\<close> has a whitespace of its own.
\<close>

definition trim :: "(char \<Rightarrow> bool) \<Rightarrow> string \<Rightarrow> string" where
  "trim P s = rev (dropWhile P (rev (dropWhile P s)))"

definition strip :: "string \<Rightarrow> string" where
  "strip s = trim isspace s"

text \<open>
  \<^verbatim>\<open>str.lower()\<close> on one code point below 256: A-Z and the capital letters of
  Latin-1 (192-222 without the multiplication sign 215) move up by 32.
\<close>

definition lower_char :: "char \<Rightarrow> char" where
  "lower_char c = (let n = (of_char c :: nat) in
     if (65 \<le> n \<and> n \<le> 90) \<or> (192 \<le> n \<and> n \<le> 222 \<and> n \<noteq> 215)
     then char_of (n + 32) else c)"

definition lower :: "string \<Rightarrow> string" where
  "lower s = map lower_char s"

text \<open>\<^verbatim>\<open>s.endswith(t)\<close>.\<close>

definition endswith :: "string \<Rightarrow> string \<Rightarrow> bool" where
  "endswith s t = (length t \<le> length s \<and> drop (length s - length t) s = t)"

subsection \<open>\<^verbatim>\<open>int(s)\<close>\<close>

text \<open>
  \<^verbatim>\<open>int(s)\<close> in base 10: surrounding whitespace is dropped, one sign is allowed,
  and the rest is a non-empty run of decimal digits in which single underscores may
  stand between two digits. Anything else raises \<^verbatim>\<open>ValueError\<close>. The whitespace
  of \<^verbatim>\<open>int\<close> is that of \<^verbatim>\<open>str.strip\<close> without the separators FS, GS, RS and US:
  \<^verbatim>\<open>int('\x1c5')\<close> raises. (A run of more than 4300 digits raises too; a Discord
  message is shorter than that.)
\<close>

definition int_space :: "char \<Rightarrow> bool" where
  "int_space c = (let n = (of_char c :: nat) in
     (9 \<le> n \<and> n \<le> 13) \<or> n = 32 \<or> n = 133 \<or> n = 160)"

definition isdigit :: "char \<Rightarrow> bool" where
  "isdigit c = (48 \<le> (of_char c :: nat) \<and> (of_char c :: nat) \<le> 57)"

definition digit_val :: "char \<Rightarrow> nat" where
  "digit_val c = of_char c - 48"

fun digits_ok :: "string \<Rightarrow> bool" where
  "digits_ok [] = False"
| "digits_ok [c] = isdigit c"
| "digits_ok (c # d # r) =
     (isdigit c \<and> (if d = CHR ''_'' then digits_ok r else digits_ok (d # r)))"

definition digits_val :: "string \<Rightarrow> nat" where
  "digits_val s = foldl (\<lambda>a c. if c = CHR ''_'' then a else 10 * a + digit_val c) 0 s"

definition unsigned_int :: "string \<Rightarrow> exn + int" where
  "unsigned_int s = (if digits_ok s then Inr (int (digits_val s)) else Inl ValueError)"

definition py_int :: "string \<Rightarrow> exn + int" where
  "py_int s = (case trim int_space s of
       [] \<Rightarrow> Inl ValueError
     | c # r \<Rightarrow>
         if c = CHR ''-'' then map_sum id uminus (unsigned_int r)
         else if c = CHR ''+'' then unsigned_int r
         else unsigned_int (c # r))"

subsection \<open>\<^verbatim>\<open>parse_duration\<close>\<close>

text \<open>
  \<^verbatim>\<open>
  def parse_duration(s: str) -> int:
      s = s.strip().lower()
      if s.endswith("s"): return int(s[:-1])
      if s.endswith("m"): return int(s[:-1]) * 60
      if s.endswith("h"): return int(s[:-1]) * 3600
      return int(s)
  \<close>
\<close>

definition parse_duration :: "string \<Rightarrow> exn + int" where
  "parse_duration s0 = (let s = lower (strip s0) in
     if endswith s ''s'' then py_int (butlast s)
     else if endswith s ''m'' then map_sum id (\<lambda>n. n * 60) (py_int (butlast s))
     else if endswith s ''h'' then map_sum id (\<lambda>n. n * 3600) (py_int (butlast s))
     else py_int s)"

section \<open>The data model\<close>

text \<open>
  Discord identifiers (users, channels, messages) are natural numbers; the source keeps
  them as \<^verbatim>\<open>str(id)\<close> and reads them back with \<^verbatim>\<open>int(...)\<close>, which is the
  identity on them. A \<^verbatim>\<open>datetime\<close> is the number of whole seconds since the epoch
  (the ISO string kept in the dictionary is read back with \<^verbatim>\<open>fromisoformat\<close>).
  The dictionary \<^verbatim>\<open>lotteries\<close> is a map from message ids to lottery objects with the
  keys that \<^verbatim>\<open>lottery_create\<close> writes.
\<close>

type_synonym snowflake = nat
type_synonym datetime = int

record ticket =
  code :: string
  buyer_id :: snowflake

record lottery =
  item :: string
  seller_id :: snowflake
  ticket_price :: string
  max_tickets :: "int option"
  image_url :: "string option"
  tickets :: "ticket list"
  created_at :: datetime
  end_time :: datetime
  ticket_channel_id :: snowflake
  lottery_id :: snowflake

type_synonym store = "snowflake \<rightharpoonup> lottery"

text \<open>
  What a command handler finds around it when it runs: the clock, the invoking message,
  what Discord answers, whether the author may manage the guild, and the random sources (\<^verbatim>\<open>uuid.uuid4()\<close>: the k-th value drawn in
  this call; \<^verbatim>\<open>random\<close>: the index \<^verbatim>\<open>random.choice\<close> draws below a bound).
\<close>

record env =
  now :: datetime
  author_id :: snowflake
  in_display_channel :: bool
  history :: "snowflake list"
  attachments :: "string list"
  new_ticket_channel :: snowflake
  new_message :: snowflake
  manage_guild :: bool
  uuid4 :: "nat \<Rightarrow> 128 word"
  randbelow :: "nat \<Rightarrow> nat"

section \<open>Ticket codes\<close>

text \<open>
  \<^verbatim>\<open>return uuid.uuid4().hex[:8].upper()\<close>: \<^verbatim>\<open>hex\<close> renders the 128-bit value as 32
  lower-case hexadecimal digits, most significant first. \<open>upper_char\<close> is
  \<^verbatim>\<open>str.upper\<close> on an ASCII code point, which is all a hexadecimal digit can be.
\<close>

definition hexdigit :: "nat \<Rightarrow> char" where
  "hexdigit n = ''0123456789abcdef'' ! n"

definition uuid_hex :: "128 word \<Rightarrow> string" where
  "uuid_hex u = map (\<lambda>k. hexdigit (unat (drop_bit (124 - 4 * k) u AND 15))) [0..<32]"

definition upper_char :: "char \<Rightarrow> char" where
  "upper_char c = (let n = (of_char c :: nat) in
     if 97 \<le> n \<and> n \<le> 122 then char_of (n - 32) else c)"

definition gen_ticket_code :: "128 word \<Rightarrow> string" where
  "gen_ticket_code u = map upper_char (take 8 (uuid_hex u))"

section \<open>Buying tickets\<close>

datatype buy_error =
    BadCount
  | WrongChannel
  | NoActiveLottery
  | LotteryNotFound
  | NotEnoughTickets int

text \<open>
  The loop \<^verbatim>\<open>for _ in range(count)\<close>: the k-th round draws a code and appends the ticket
  to the lottery's list and the code to \<^verbatim>\<open>new_codes\<close>.
\<close>

fun sell :: "env \<Rightarrow> nat \<Rightarrow> nat \<Rightarrow> ticket list \<times> string list \<Rightarrow> ticket list \<times> string list" where
  "sell ctx k 0 acc = acc"
| "sell ctx k (Suc n) (ts, new_codes) =
     (let c = gen_ticket_code (uuid4 ctx k)
      in sell ctx (Suc k) n (ts @ [\<lparr>code = c, buyer_id = author_id ctx\<rparr>], new_codes @ [c]))"

text \<open>
  \<^verbatim>\<open>buy_tickets(ctx, count)\<close>. The lottery is the first of the last 50 messages of the
  channel (newest first) whose id is a key of \<^verbatim>\<open>lotteries\<close>; a failing history fetch
  only shortens what is seen. The result is the error message sent, or the updated
  dictionary with the codes sent to the buyer. Between the lookup of the lottery and
  the last append the handler does not await, so no other handler runs in between; the
  clock is in \<open>ctx\<close> like everything a handler could read, and this one does not read it.
\<close>

definition buy_tickets :: "env \<Rightarrow> store \<Rightarrow> int \<Rightarrow> buy_error + (store \<times> string list)" where
  "buy_tickets ctx lotteries count =
     (if count \<le> 0 then Inl BadCount
      else if \<not> in_display_channel ctx then Inl WrongChannel
      else case find (\<lambda>m. lotteries m \<noteq> None) (take 50 (history ctx)) of
          None \<Rightarrow> Inl NoActiveLottery
        | Some found_msg \<Rightarrow>
           (case lotteries found_msg of
              None \<Rightarrow> Inl LotteryNotFound
            | Some lot \<Rightarrow>
               let current_sold = int (length (tickets lot)) in
               if (case max_tickets lot of None \<Rightarrow> False
                   | Some mt \<Rightarrow> current_sold + count > mt)
               then Inl (NotEnoughTickets
                      (case max_tickets lot of None \<Rightarrow> 0 | Some mt \<Rightarrow> mt - current_sold))
               else
                 let (ts, new_codes) = sell ctx 0 (nat count) (tickets lot, [])
                 in Inr (lotteries(found_msg \<mapsto> lot\<lparr>tickets := ts\<rparr>), new_codes)))"

section \<open>Finalization\<close>

text \<open>
  What \<^verbatim>\<open>finalize_lottery\<close> posts in the display channel (the ticket channel and the
  direct messages repeat it, and their failures are swallowed): the winner announcement
  with item, winner, winning code and seller, or the notice that no tickets were sold.
\<close>

datatype announcement =
    LotteryEnded string snowflake string snowflake
  | NoTicketsSold string

text \<open>\<^verbatim>\<open>random.choice(seq)\<close> is \<^verbatim>\<open>seq[randbelow(len(seq))]\<close> and raises on an empty one.\<close>

definition random_choice :: "env \<Rightarrow> 'a list \<Rightarrow> exn + 'a" where
  "random_choice ctx xs =
     (if xs = [] then Inl IndexError else Inr (xs ! randbelow ctx (length xs)))"

text \<open>
  \<^verbatim>\<open>
  lottery = lotteries.pop(message_id_str, None)
  if not lottery: return
  tickets = lottery.get("tickets", [])
  if tickets: winning_ticket = random.choice(tickets) ... else: ...
  \<close>
  The result is the dictionary after the call and the announcement, if one was made.
  The branch for a raise of \<^verbatim>\<open>random.choice\<close> is never taken, the list being non-empty.
\<close>

definition finalize_lottery :: "env \<Rightarrow> store \<Rightarrow> snowflake \<Rightarrow> store \<times> announcement option" where
  "finalize_lottery ctx lotteries message_id =
     (let popped = lotteries message_id;
          lotteries' = lotteries(message_id := None)
      in case popped of
           None \<Rightarrow> (lotteries', None)
         | Some lot \<Rightarrow>
            if tickets lot \<noteq> [] then
              (case random_choice ctx (tickets lot) of
                 Inl e \<Rightarrow> (lotteries', None)
               | Inr winning_ticket \<Rightarrow>
                  (lotteries', Some (LotteryEnded (item lot) (buyer_id winning_ticket)
                                       (code winning_ticket) (seller_id lot))))
            else (lotteries', Some (NoTicketsSold (item lot))))"

text \<open>
  \<^verbatim>\<open>admin_end(ctx, message_id)\<close>, behind \<^verbatim>\<open>has_permissions(manage_guild=True)\<close>: the
  forced end of a lottery. The result is the dictionary, the announcement made, and the
  reply to the administrator.
\<close>

datatype admin_reply = MissingPermissions | NoLotteryWithThatId | LotteryFinalized

definition admin_end :: "env \<Rightarrow> store \<Rightarrow> snowflake \<Rightarrow> store \<times> announcement option \<times> admin_reply" where
  "admin_end ctx lotteries message_id =
     (if \<not> manage_guild ctx then (lotteries, None, MissingPermissions)
      else if lotteries message_id = None then (lotteries, None, NoLotteryWithThatId)
      else (fst (finalize_lottery ctx lotteries message_id),
            snd (finalize_lottery ctx lotteries message_id), LotteryFinalized))"

section \<open>Creating a lottery\<close>

text \<open>
  \<^verbatim>\<open>datetime.utcnow() + datetime.timedelta(seconds=seconds)\<close>: the \<^verbatim>\<open>timedelta\<close> must
  have at most 999999999 days in magnitude and the sum must lie between the years 1 and
  9999; both raise \<^verbatim>\<open>OverflowError\<close> otherwise.
\<close>

definition add_seconds :: "datetime \<Rightarrow> int \<Rightarrow> exn + datetime" where
  "add_seconds t seconds =
     (if \<bar>seconds div 86400\<bar> > 999999999 then Inl OverflowError
      else if t + seconds < - 62135596800 \<or> t + seconds > 253402300799 then Inl OverflowError
      else Inr (t + seconds))"

datatype create_error =
    UsageError
  | MissingParameters
  | CouldNotParse
  | MaxTicketsNotNumber
  | BadDuration
  | Raised exn

text \<open>
  \<^verbatim>\<open>lottery_create(ctx, action, rest)\<close>, with \<^verbatim>\<open>shlex.split\<close> as a parameter. The result is
  the reply on an early return, the exception that leaves the handler, or the updated
  dictionary with the timer that was started (message id and seconds). The dictionary
  is written once, after the lottery was posted, under the id of that message.
\<close>

definition lottery_create ::
  "(string \<Rightarrow> exn + string list) \<Rightarrow> env \<Rightarrow> store \<Rightarrow> string \<Rightarrow> string option
     \<Rightarrow> create_error + (store \<times> snowflake \<times> int)" where
  "lottery_create shlex_split ctx lotteries action rest =
     (if lower action \<noteq> ''create'' then Inl UsageError
      else case rest of
          None \<Rightarrow> Inl MissingParameters
        | Some r \<Rightarrow>
           if r = [] then Inl MissingParameters
           else case shlex_split r of
               Inl e \<Rightarrow> Inl CouldNotParse
             | Inr parts \<Rightarrow>
                if length parts < 3 then Inl MissingParameters
                else case (if length parts \<ge> 4 then map_sum id Some (py_int (parts ! 3))
                           else Inr None) of
                    Inl e \<Rightarrow> Inl MaxTicketsNotNumber
                  | Inr mt \<Rightarrow>
                     (case parse_duration (parts ! 1) of
                        Inl e \<Rightarrow> Inl BadDuration
                      | Inr seconds \<Rightarrow>
                         (case add_seconds (now ctx) seconds of
                            Inl e \<Rightarrow> Inl (Raised e)
                          | Inr et \<Rightarrow>
                             let lottery_obj = \<lparr>
                                   item = parts ! 0,
                                   seller_id = author_id ctx,
                                   ticket_price = parts ! 2,
                                   max_tickets = mt,
                                   image_url = (case attachments ctx of [] \<Rightarrow> None
                                                | a # _ \<Rightarrow> Some a),
                                   tickets = [],
                                   created_at = now ctx,
                                   end_time = et,
                                   ticket_channel_id = new_ticket_channel ctx,
                                   lottery_id = new_message ctx\<rparr>
                             in Inr (lotteries(new_message ctx \<mapsto> lottery_obj),
                                     new_message ctx, seconds))))"

section \<open>Sequences of commands\<close>

datatype command =
    Create env string "string option"
  | Buy env int
  | Finalize env snowflake

fun exec :: "(string \<Rightarrow> exn + string list) \<Rightarrow> store \<Rightarrow> command \<Rightarrow> store" where
  "exec sp s (Create ctx action rest) =
     (case lottery_create sp ctx s action rest of Inl e \<Rightarrow> s | Inr (s', t) \<Rightarrow> s')"
| "exec sp s (Buy ctx count) =
     (case buy_tickets ctx s count of Inl e \<Rightarrow> s | Inr (s', cs) \<Rightarrow> s')"
| "exec sp s (Finalize ctx m) = fst (finalize_lottery ctx s m)"

definition run :: "(string \<Rightarrow> exn + string list) \<Rightarrow> store \<Rightarrow> command list \<Rightarrow> store" where
  "run sp s cmds = foldl (exec sp) s cmds"

section \<open>The snapshot file\<close>

datatype json =
    JNull
  | JBool bool
  | JInt int
  | JStr string
  | JArr "json list"
  | JObj "(string \<times> json) list"

text \<open>
  \<^verbatim>\<open>load_data\<close>, with \<^verbatim>\<open>json.load\<close> on the opened file as a parameter and the content
  of the file (\<open>None\<close> when it does not exist) as input. The body of the \<^verbatim>\<open>try\<close> raises
  when the file does not parse and when the document is not an object
  (\<^verbatim>\<open>data.get\<close> on a list, a number, ...); \<^verbatim>\<open>except Exception\<close> turns every raise into
  the empty dictionary. The result is the new value of the global \<^verbatim>\<open>lotteries\<close>. An
  object is the list of its entries, one per key, as \<^verbatim>\<open>json.load\<close> builds a \<^verbatim>\<open>dict\<close>.
\<close>

definition load_body :: "(string \<Rightarrow> exn + json) \<Rightarrow> string \<Rightarrow> exn + json" where
  "load_body json_load content =
     (case json_load content of
        Inl e \<Rightarrow> Inl e
      | Inr data \<Rightarrow>
         (case data of
            JObj kvs \<Rightarrow> (case map_of kvs ''lotteries'' of None \<Rightarrow> Inr (JObj []) | Some v \<Rightarrow> Inr v)
          | _ \<Rightarrow> Inl AttributeError))"

definition load_data :: "(string \<Rightarrow> exn + json) \<Rightarrow> string option \<Rightarrow> exn + json" where
  "load_data json_load file =
     (case file of
        Some content \<Rightarrow>
          (case load_body json_load content of Inl e \<Rightarrow> Inr (JObj []) | Inr v \<Rightarrow> Inr v)
      | None \<Rightarrow> Inr (JObj []))"


text \<open>
  \<^verbatim>\<open>
  with open(DATA_FILE, "w") as f:
      json.dump({"lotteries": lotteries}, f, indent=2, default=str)
  \<close>
  \<^verbatim>\<open>json.dump\<close> is a parameter: the chunks it writes for the dictionary, in order. Opening
  with mode \<^verbatim>\<open>"w"\<close> truncates the file before the first chunk is written. A fault says
  where the call fails: at the open, or at the write after so many chunks. The result
  is the content of the file afterwards and the exception raised, if any.
\<close>

datatype fault = OpenFails | WriteFails nat

definition save_data ::
  "(store \<Rightarrow> string list) \<Rightarrow> store \<Rightarrow> fault option \<Rightarrow> string option \<Rightarrow> string option \<times> exn option" where
  "save_data json_dump lotteries flt file =
     (case flt of
        Some OpenFails \<Rightarrow> (file, Some OSError)
      | Some (WriteFails k) \<Rightarrow> (Some (concat (take k (json_dump lotteries))), Some OSError)
      | None \<Rightarrow> (Some (concat (json_dump lotteries)), None))"

section \<open>What a purchase appends\<close>

text \<open>The codes that \<^verbatim>\<open>count\<close> rounds of the loop draw, and the tickets they make.\<close>

definition drawn_codes :: "env \<Rightarrow> nat \<Rightarrow> string list" where
  "drawn_codes ctx n = map (\<lambda>k. gen_ticket_code (uuid4 ctx k)) [0..<n]"

definition tickets_for :: "env \<Rightarrow> string list \<Rightarrow> ticket list" where
  "tickets_for ctx cs = map (\<lambda>c. \<lparr>code = c, buyer_id = author_id ctx\<rparr>) cs"

text \<open>The lottery a purchase is made against.\<close>

definition target :: "env \<Rightarrow> store \<Rightarrow> snowflake option" where
  "target ctx lotteries = find (\<lambda>m. lotteries m \<noteq> None) (take 50 (history ctx))"

section \<open>Example inputs\<close>

text \<open>
  \<^verbatim>\<open>shlex.split\<close> on a string without quotes, backslashes or comment signs gives the
  words between the blanks; \<open>split_words\<close> does that and stands for it in the examples.
\<close>

fun split_blank :: "string \<Rightarrow> string \<Rightarrow> string list" where
  "split_blank w [] = (if w = [] then [] else [w])"
| "split_blank w (c # cs) =
     (if isspace c then (if w = [] then split_blank [] cs else w # split_blank [] cs)
      else split_blank (w @ [c]) cs)"

definition split_words :: "string \<Rightarrow> exn + string list" where
  "split_words r = Inr (split_blank [] r)"

text \<open>
  Version-4 UUIDs that differ in their last digits only: the k-th one is
  \<^verbatim>\<open>3f2a9c1e-0000-4000-8000-00000000000k\<close>.
\<close>

definition example_uuid :: "nat \<Rightarrow> 128 word" where
  "example_uuid k = 0x3f2a9c1e000040008000000000000000 + of_nat k"

text \<open>
  User 7 writes in the display channel at time 1000; message 500 is the newest one
  there; \<^verbatim>\<open>random\<close> draws index 0.
\<close>

definition example_ctx :: env where
  "example_ctx = \<lparr>now = 1000, author_id = 7, in_display_channel = True, history = [500],
     attachments = [], new_ticket_channel = 300, new_message = 500, manage_guild = True,
     uuid4 = example_uuid, randbelow = (\<lambda>n. 0)\<rparr>"

text \<open>The store after \<^verbatim>\<open>!lottery create Sword 1h 50 2\<close>.\<close>

definition example_store :: store where
  "example_store =
     exec split_words Map.empty (Create example_ctx ''create'' (Some ''Sword 1h 50 2''))"

text \<open>The same store after user 7 bought one ticket.\<close>

definition one_sold :: store where
  "one_sold = exec split_words example_store (Buy example_ctx 1)"

text \<open>
  The fair-draw example of the specification: user 7 holds two tickets and user 8 one.
\<close>

definition two_to_one :: store where
  "two_to_one = run split_words Map.empty
     [Create example_ctx ''create'' (Some ''Sword 1h 50''),
      Buy example_ctx 2, Buy (example_ctx\<lparr>author_id := 8\<rparr>) 1]"

text \<open>
  Two snapshot files: the one-line text \<^verbatim>\<open>{"lotteries": {"500": {}}}\<close>, and the chunks
  that \<^verbatim>\<open>json.dump\<close> with \<^verbatim>\<open>indent=2\<close> writes for a dictionary without lotteries.
  \<open>example_json_dump\<close> stands for \<^verbatim>\<open>json.dump\<close> on such a dictionary, and
  \<open>example_json_load\<close> for \<^verbatim>\<open>json.load\<close> on these two files, on an empty object and
  on an empty array; every other content does not parse.
\<close>

definition example_snapshot :: string where
  "example_snapshot = ''{'' @ [CHR 0x22] @ ''lotteries'' @ [CHR 0x22] @ '': {'' @ [CHR 0x22]
     @ ''500'' @ [CHR 0x22] @ '': {}}}''"

definition empty_chunks :: "string list" where
  "empty_chunks = [''{'', [CHR 0x0A] @ ''  '', [CHR 0x22] @ ''lotteries'' @ [CHR 0x22],
     '': '', ''{}'', [CHR 0x0A], ''}'']"

definition example_json_dump :: "store \<Rightarrow> string list" where
  "example_json_dump lotteries = empty_chunks"

definition example_json_load :: "string \<Rightarrow> exn + json" where
  "example_json_load content =
     (if content = example_snapshot
        then Inr (JObj [(''lotteries'', JObj [(''500'', JObj [])])])
      else if content = concat empty_chunks then Inr (JObj [(''lotteries'', JObj [])])
      else if content = ''{}'' then Inr (JObj [])
      else if content = ''[]'' then Inr (JArr [])
      else Inl JSONDecodeError)"



text \<open>A lottery of ten seconds, and the context of a purchase made at time 2000.\<close>

definition short_store :: store where
  "short_store =
     exec split_words Map.empty (Create example_ctx ''create'' (Some ''Sword 10s 50''))"

definition late_ctx :: env where
  "late_ctx = example_ctx\<lparr>now := 2000\<rparr>"

text \<open>A context whose UUIDs differ in their first digits.\<close>

definition spread_ctx :: env where
  "spread_ctx = example_ctx\<lparr>uuid4 := (\<lambda>k. push_bit 96 (of_nat (Suc k)))\<rparr>"

text \<open>
  The example of the specification: create with a cap of 2, buy 1, try to buy 2, buy 1,
  try to buy 1.
\<close>

definition example_commands :: "command list" where
  "example_commands =
     [Create example_ctx ''create'' (Some ''Sword 1h 50 2''),
      Buy example_ctx 1, Buy example_ctx 2, Buy example_ctx 1, Buy example_ctx 1]"

section \<open>Facts about strings and \<^verbatim>\<open>int\<close>\<close>


lemma rtrim_Cons: "\<not> P x \<Longrightarrow> rev (dropWhile P (rev (x # r))) = x # rev (dropWhile P (rev r))"
  by (simp add: dropWhile_append3)

lemma trim_plain:
  assumes "s \<noteq> []" "\<not> P (hd s)" "\<not> P (last s)"
  shows "trim P s = s"
proof -
  have 1: "dropWhile P s = s"
    using assms(1,2) by (cases s) auto
  have "rev s \<noteq> []" "\<not> P (hd (rev s))"
    using assms(1,3) by (auto simp: hd_rev)
  then have 2: "dropWhile P (rev s) = rev s"
    by (cases "rev s") auto
  show ?thesis by (simp only: trim_def 1 2 rev_rev_ident)
qed

lemma trim_ends:
  assumes "trim P s \<noteq> []"
  shows "\<not> P (hd (trim P s)) \<and> \<not> P (last (trim P s))"
proof -
  let ?u = "dropWhile P s"
  let ?v = "dropWhile P (rev ?u)"
  from assms have v: "?v \<noteq> []" by (simp add: trim_def)
  have u: "?u \<noteq> []"
  proof
    assume "?u = []"
    then have "?v = []" by (simp only: rev.simps dropWhile.simps)
    with v show False by blast
  qed
  have lastv: "\<not> P (hd ?v)" using v by (rule hd_dropWhile)
  have hdu: "\<not> P (hd ?u)" using u by (rule hd_dropWhile)
  obtain x r where xr: "?u = x # r" using u by (cases ?u) auto
  with hdu have nx: "\<not> P x" by simp
  have "trim P s = x # rev (dropWhile P (rev r))"
    unfolding trim_def xr by (rule rtrim_Cons [of P x, OF nx])
  then have h: "hd (trim P s) = x" by simp
  have "last (trim P s) = hd ?v"
    using v by (simp add: trim_def last_rev)
  with lastv h nx show ?thesis by simp
qed

lemma trim_idem [simp]: "trim P (trim P s) = trim P s"
proof (cases "trim P s = []")
  case True
  have "trim P [] = []" by (simp add: trim_def)
  then show ?thesis by (simp only: True)
next
  case False
  from trim_ends [OF False] show ?thesis
    by (intro trim_plain) (use False in auto)
qed

lemma dropWhile_all: "\<forall>c\<in>set a. P c \<Longrightarrow> dropWhile P (a @ s) = dropWhile P s"
  by (induction a) auto

lemma trim_pad:
  assumes "\<forall>c\<in>set a. P c" "\<forall>c\<in>set b. P c"
  shows "trim P (a @ s @ b) = trim P s"
proof -
  have 1: "trim P (a @ t) = trim P t" for t
    by (simp add: trim_def dropWhile_all [OF assms(1)])
  have 2: "trim P (t @ b) = trim P t" for t
  proof (cases "\<forall>c\<in>set t. P c")
    case True
    then have e: "dropWhile P (t @ b) = []" "dropWhile P t = []" using assms(2) by auto
    show ?thesis by (simp only: trim_def e)
  next
    case False
    then have "dropWhile P (t @ b) = dropWhile P t @ b"
      by (auto simp: dropWhile_append1)
    moreover have "dropWhile P (rev b @ u) = dropWhile P u" for u
      by (rule dropWhile_all) (use assms(2) in simp)
    ultimately show ?thesis unfolding trim_def by simp
  qed
  show ?thesis by (simp add: 1 2)
qed


lemma trim_map:
  assumes "\<And>c. P (f c) = P c"
  shows "trim P (map f s) = map f (trim P s)"
  by (simp add: trim_def dropWhile_map rev_map comp_def assms)


lemma isspace_lower [simp]: "isspace (lower_char c) = isspace c"
  unfolding isspace_def lower_char_def Let_def by auto

lemma int_space_lower [simp]: "int_space (lower_char c) = int_space c"
  unfolding int_space_def lower_char_def Let_def by auto

lemma lower_char_idem [simp]: "lower_char (lower_char c) = lower_char c"
  unfolding lower_char_def Let_def by auto

lemma strip_lower: "strip (lower s) = lower (strip s)"
  by (simp add: strip_def lower_def trim_map)

lemma strip_idem [simp]: "strip (strip s) = strip s"
  by (simp add: strip_def)

lemma strip_pad:
  "\<forall>c\<in>set a. isspace c \<Longrightarrow> \<forall>c\<in>set b. isspace c \<Longrightarrow> strip (a @ s @ b) = strip s"
  unfolding strip_def by (rule trim_pad)

lemma normalise_idem: "lower (strip (lower (strip s))) = lower (strip s)"
  by (simp add: strip_lower) (simp add: lower_def)

lemma parse_duration_normal: "parse_duration (lower (strip s)) = parse_duration s"
  by (simp add: parse_duration_def normalise_idem)

























section \<open>Duration parsing\<close>



text \<open>
  C10. The parser trims and lower-cases its input before it looks at the suffix: an input
  parses to the same result as its trimmed lower-case form, trimming alone and
  lower-casing alone change nothing, whitespace added at either end changes nothing
  (\<open>filter isspace a\<close> is any string of whitespace), and the suffixes S, M and H parse
  as s, m and h.
\<close>

theorem parse_duration_normalisation:
  "parse_duration (lower (strip s)) = parse_duration s
   \<and> parse_duration (strip s) = parse_duration s
   \<and> parse_duration (lower s) = parse_duration s
   \<and> parse_duration (filter isspace a @ s @ filter isspace b) = parse_duration s
   \<and> parse_duration (d @ ''S'') = parse_duration (d @ ''s'')
   \<and> parse_duration (d @ ''M'') = parse_duration (d @ ''m'')
   \<and> parse_duration (d @ ''H'') = parse_duration (d @ ''h'')"
proof -
  have n: "parse_duration x = parse_duration y" if "lower (strip x) = lower (strip y)" for x y
    using that by (simp add: parse_duration_def)
  have 1: "parse_duration (lower (strip s)) = parse_duration s"
    by (rule parse_duration_normal)
  have 2: "parse_duration (strip s) = parse_duration s"
    by (rule n) simp
  have 3: "parse_duration (lower s) = parse_duration s"
    by (rule n) (simp add: strip_lower, simp add: lower_def)
  have 4: "parse_duration (filter isspace a @ s @ filter isspace b) = parse_duration s"
    by (rule n) (simp add: strip_pad)
  have u: "parse_duration (d @ [c]) = parse_duration (d @ [lower_char c])" for c
  proof (rule n)
    have "lower (d @ [c]) = lower (d @ [lower_char c])"
      by (simp add: lower_def)
    then have "strip (lower (d @ [c])) = strip (lower (d @ [lower_char c]))"
      by (rule arg_cong)
    then show "lower (strip (d @ [c])) = lower (strip (d @ [lower_char c]))"
      by (simp only: strip_lower)
  qed
  have 5: "parse_duration (d @ ''S'') = parse_duration (d @ ''s'')"
  proof -
    have "lower_char CHR ''S'' = CHR ''s''" by code_simp
    with u [of "CHR ''S''"] show ?thesis by simp
  qed
  have 6: "parse_duration (d @ ''M'') = parse_duration (d @ ''m'')"
  proof -
    have "lower_char CHR ''M'' = CHR ''m''" by code_simp
    with u [of "CHR ''M''"] show ?thesis by simp
  qed
  have 7: "parse_duration (d @ ''H'') = parse_duration (d @ ''h'')"
  proof -
    have "lower_char CHR ''H'' = CHR ''h''" by code_simp
    with u [of "CHR ''H''"] show ?thesis by simp
  qed
  from 1 2 3 4 5 6 7 show ?thesis by blast
qed





section \<open>Purchases\<close>


lemma sell_eq:
  "sell ctx k n (ts, cs) =
     (ts @ map (\<lambda>j. \<lparr>code = gen_ticket_code (uuid4 ctx j), buyer_id = author_id ctx\<rparr>) [k..<k + n],
      cs @ map (\<lambda>j. gen_ticket_code (uuid4 ctx j)) [k..<k + n])"
proof (induction n arbitrary: k ts cs)
  case 0
  show ?case by simp
next
  case (Suc n)
  have "[k..<k + Suc n] = k # [Suc k..<Suc k + n]"
    by (simp add: upt_rec)
  then show ?case
    by (simp add: Suc.IH Let_def)
qed

lemma sell_from_zero:
  "sell ctx 0 n (ts, []) = (ts @ tickets_for ctx (drawn_codes ctx n), drawn_codes ctx n)"
  by (simp add: sell_eq tickets_for_def drawn_codes_def comp_def)

lemma buy_success:
  "buy_tickets ctx s count = Inr (s', cs) \<longleftrightarrow>
     0 < count \<and> in_display_channel ctx \<and>
     (\<exists>m l. target ctx s = Some m \<and> s m = Some l
        \<and> (\<forall>M. max_tickets l = Some M \<longrightarrow> int (length (tickets l)) + count \<le> M)
        \<and> cs = drawn_codes ctx (nat count)
        \<and> s' = s(m \<mapsto> l\<lparr>tickets := tickets l @ tickets_for ctx cs\<rparr>))"
  by (auto simp: buy_tickets_def target_def sell_from_zero Let_def split: option.splits if_splits)


text \<open>
  C9. A successful purchase of \<open>count\<close> tickets appends exactly \<open>count\<close> tickets at
  the end of the target lottery's list, each with the buyer's identifier; every other
  field of that lottery and every other lottery of the store stay as they were.
\<close>

theorem purchase_frame:
  assumes "buy_tickets ctx s count = Inr (s', cs)"
  shows "\<exists>m l l'. target ctx s = Some m \<and> s m = Some l \<and> s' m = Some l'
      \<and> tickets l' = tickets l @ tickets_for ctx cs
      \<and> int (length cs) = count
      \<and> map buyer_id (tickets_for ctx cs) = replicate (nat count) (author_id ctx)
      \<and> l' = l\<lparr>tickets := tickets l'\<rparr>
      \<and> item l' = item l \<and> seller_id l' = seller_id l \<and> ticket_price l' = ticket_price l
      \<and> max_tickets l' = max_tickets l \<and> end_time l' = end_time l
      \<and> image_url l' = image_url l \<and> created_at l' = created_at l
      \<and> ticket_channel_id l' = ticket_channel_id l \<and> lottery_id l' = lottery_id l
      \<and> (\<forall>k. k \<noteq> m \<longrightarrow> s' k = s k)"
proof -
  from assms obtain m l where pos: "0 < count" and t: "target ctx s = Some m" and l: "s m = Some l"
    and cs: "cs = drawn_codes ctx (nat count)"
    and s': "s' = s(m \<mapsto> l\<lparr>tickets := tickets l @ tickets_for ctx cs\<rparr>)"
    unfolding buy_success by blast
  let ?l' = "l\<lparr>tickets := tickets l @ tickets_for ctx cs\<rparr>"
  have len: "int (length cs) = count"
    using pos by (simp add: cs drawn_codes_def)
  have buyers: "map buyer_id (tickets_for ctx cs) = replicate (nat count) (author_id ctx)"
    using len by (simp add: tickets_for_def comp_def map_replicate_const)
  have "s' m = Some ?l'" "\<forall>k. k \<noteq> m \<longrightarrow> s' k = s k"
    by (simp_all add: s')
  with t l len buyers show ?thesis
    by (intro exI [of _ m] exI [of _ l] exI [of _ ?l']) simp
qed

theorem purchase_frame_witness:
  "\<exists>s' l'. buy_tickets example_ctx example_store 2 = Inr (s', [''3F2A9C1E'', ''3F2A9C1E''])
     \<and> s' 500 = Some l'
     \<and> tickets l' = [\<lparr>code = ''3F2A9C1E'', buyer_id = 7\<rparr>, \<lparr>code = ''3F2A9C1E'', buyer_id = 7\<rparr>]
     \<and> item l' = ''Sword'' \<and> max_tickets l' = Some 2 \<and> end_time l' = 4600"
proof -
  have "map_sum id snd (buy_tickets example_ctx example_store 2)
      = Inr [''3F2A9C1E'', ''3F2A9C1E'']"
    by code_simp
  then obtain s' where b: "buy_tickets example_ctx example_store 2 = Inr (s', [''3F2A9C1E'', ''3F2A9C1E''])"
    by (cases "buy_tickets example_ctx example_store 2") auto
  have t: "target example_ctx example_store = Some 500"
    by code_simp
  have e: "map_option (\<lambda>l. (tickets l, item l, max_tickets l, end_time l)) (example_store 500)
      = Some ([], ''Sword'', Some 2, 4600)"
    by code_simp
  have a: "author_id example_ctx = 7"
    by (simp add: example_ctx_def)
  from purchase_frame [OF b] b t e a show ?thesis
    by (auto simp: tickets_for_def)
qed

section \<open>Capacity\<close>


lemma create_success:
  assumes "lottery_create sp ctx s action rest = Inr (s', t)"
  shows "\<exists>obj. s' = s(new_message ctx \<mapsto> obj) \<and> tickets obj = []"
  using assms
  by (auto simp: lottery_create_def Let_def split: if_splits option.splits sum.splits)

lemma finalize_store: "fst (finalize_lottery ctx s m) = s(m := None)"
  by (simp add: finalize_lottery_def Let_def split: option.splits sum.splits)

lemma buy_rejected_unchanged: "buy_tickets ctx s count = Inl err \<Longrightarrow> exec sp s (Buy ctx count) = s"
  by simp

lemma buy_over_capacity:
  assumes "target ctx s = Some m" "s m = Some l" "max_tickets l = Some M"
    "int (length (tickets l)) + count > M"
  shows "\<exists>err. buy_tickets ctx s count = Inl err"
    and "0 < count \<Longrightarrow> in_display_channel ctx \<Longrightarrow>
      buy_tickets ctx s count = Inl (NotEnoughTickets (M - int (length (tickets l))))"
  using assms by (auto simp: buy_tickets_def target_def Let_def)

text \<open>
  The invariant of the store: a lottery whose cap is not negative is within it. Every
  command keeps it.
\<close>

lemma exec_keeps_caps:
  assumes inv: "\<And>k l M. s k = Some l \<Longrightarrow> max_tickets l = Some M \<Longrightarrow> 0 \<le> M \<Longrightarrow> int (length (tickets l)) \<le> M"
    and after: "exec sp s c k = Some l" "max_tickets l = Some M" "0 \<le> M"
  shows "int (length (tickets l)) \<le> M"
proof (cases c)
  case (Create ctx action rest)
  show ?thesis
  proof (cases "lottery_create sp ctx s action rest")
    case (Inl e)
    with Create after inv show ?thesis by simp
  next
    case (Inr r)
    obtain s' t where r: "r = (s', t)" by (cases r)
    from create_success [OF Inr [unfolded r]] obtain obj
      where "s' = s(new_message ctx \<mapsto> obj)" "tickets obj = []" by blast
    with Create Inr r after inv show ?thesis
      by (cases "k = new_message ctx") auto
  qed
next
  case (Buy ctx count)
  show ?thesis
  proof (cases "buy_tickets ctx s count")
    case (Inl e)
    with Buy after inv show ?thesis by simp
  next
    case (Inr r)
    obtain s' cs where r: "r = (s', cs)" by (cases r)
    from Inr [unfolded r buy_success] obtain m l0
      where pos: "0 < count" and l0: "s m = Some l0"
        and cap: "\<forall>M. max_tickets l0 = Some M \<longrightarrow> int (length (tickets l0)) + count \<le> M"
        and cs: "cs = drawn_codes ctx (nat count)"
        and s': "s' = s(m \<mapsto> l0\<lparr>tickets := tickets l0 @ tickets_for ctx cs\<rparr>)"
      by blast
    have len: "int (length (tickets_for ctx cs)) = count"
      using pos by (simp add: cs tickets_for_def drawn_codes_def)
    show ?thesis
    proof (cases "k = m")
      case True
      with Buy Inr r s' after have l: "l = l0\<lparr>tickets := tickets l0 @ tickets_for ctx cs\<rparr>"
        by simp
      with after(2) cap len show ?thesis by simp
    next
      case False
      with Buy Inr r s' after inv show ?thesis by simp
    qed
  qed
next
  case (Finalize ctx m)
  with after inv show ?thesis
    by (cases "k = m") (auto simp: finalize_store)
qed

lemma run_keeps_caps:
  assumes "\<And>k l M. s k = Some l \<Longrightarrow> max_tickets l = Some M \<Longrightarrow> 0 \<le> M \<Longrightarrow> int (length (tickets l)) \<le> M"
    and "run sp s cmds k = Some l" "max_tickets l = Some M" "0 \<le> M"
  shows "int (length (tickets l)) \<le> M"
  using assms
proof (induction cmds arbitrary: s k l M)
  case Nil
  then show ?case by (simp add: run_def)
next
  case (Cons c cmds)
  have step: "\<And>k l M. exec sp s c k = Some l \<Longrightarrow> max_tickets l = Some M \<Longrightarrow> 0 \<le> M
      \<Longrightarrow> int (length (tickets l)) \<le> M"
    using exec_keeps_caps [of s sp c] Cons.prems(1) by blast
  from Cons.prems(2) have "run sp (exec sp s c) cmds k = Some l"
    by (simp add: run_def)
  from Cons.IH [OF step this Cons.prems(3,4)] show ?case .
qed

lemma purchase_keeps_cap:
  assumes "s m = Some l" "max_tickets l = Some M" "int (length (tickets l)) \<le> M"
    "exec sp s (Buy ctx count) m = Some l'"
  shows "max_tickets l' = Some M \<and> int (length (tickets l')) \<le> M"
proof (cases "buy_tickets ctx s count")
  case (Inl e)
  with assms show ?thesis by simp
next
  case (Inr r)
  obtain s' cs where r: "r = (s', cs)" by (cases r)
  from Inr [unfolded r buy_success] obtain m0 l0
    where pos: "0 < count" and l0: "s m0 = Some l0"
      and cap: "\<forall>M. max_tickets l0 = Some M \<longrightarrow> int (length (tickets l0)) + count \<le> M"
      and cs: "cs = drawn_codes ctx (nat count)"
      and s': "s' = s(m0 \<mapsto> l0\<lparr>tickets := tickets l0 @ tickets_for ctx cs\<rparr>)"
    by blast
  have len: "int (length (tickets_for ctx cs)) = count"
    using pos by (simp add: cs tickets_for_def drawn_codes_def)
  show ?thesis
  proof (cases "m = m0")
    case True
    with assms Inr r s' l0 have "l0 = l" "l' = l\<lparr>tickets := tickets l @ tickets_for ctx cs\<rparr>"
      by simp_all
    with assms(2) cap len show ?thesis by simp
  next
    case False
    with assms Inr r s' show ?thesis by simp
  qed
qed


text \<open>
  C1, as the code has it. A purchase against a lottery with cap \<open>M\<close> that would bring
  the number of tickets above \<open>M\<close> is rejected as a whole: the store is unchanged, and
  the reply (when count is positive and the channel is right) reports
  \<open>M - currentSold\<close>. A purchase keeps a lottery that is within its cap within it, and
  after any sequence of create, purchase and finalize commands, starting with no
  lottery, every lottery whose cap is not negative holds at most that many tickets.
\<close>

theorem capacity:
  fixes M M2 :: int
  shows
   "(s m = Some l \<and> max_tickets l = Some M \<and> target ctx s = Some m
      \<and> int (length (tickets l)) + count > M \<longrightarrow>
        (\<exists>err. buy_tickets ctx s count = Inl err) \<and> exec sp s (Buy ctx count) = s
        \<and> (0 < count \<and> in_display_channel ctx \<longrightarrow>
             buy_tickets ctx s count = Inl (NotEnoughTickets (M - int (length (tickets l))))))
    \<and> (s m = Some l \<and> max_tickets l = Some M \<and> int (length (tickets l)) \<le> M
        \<and> exec sp s (Buy ctx count) m = Some l' \<longrightarrow>
          max_tickets l' = Some M \<and> int (length (tickets l')) \<le> M)
    \<and> (run sp Map.empty cmds k = Some l2 \<and> max_tickets l2 = Some M2 \<and> 0 \<le> M2 \<longrightarrow>
          int (length (tickets l2)) \<le> M2)"
proof (intro conjI impI)
  assume h: "s m = Some l \<and> max_tickets l = Some M \<and> target ctx s = Some m
      \<and> int (length (tickets l)) + count > M"
  then have a: "target ctx s = Some m" "s m = Some l" "max_tickets l = Some M"
    "int (length (tickets l)) + count > M" by simp_all
  from buy_over_capacity(1) [OF a] show "\<exists>err. buy_tickets ctx s count = Inl err" .
  then show "exec sp s (Buy ctx count) = s" by auto
  assume "0 < count \<and> in_display_channel ctx"
  then show "buy_tickets ctx s count = Inl (NotEnoughTickets (M - int (length (tickets l))))"
    using buy_over_capacity(2) [OF a] by simp
next
  assume h: "s m = Some l \<and> max_tickets l = Some M \<and> int (length (tickets l)) \<le> M
        \<and> exec sp s (Buy ctx count) m = Some l'"
  then have r: "max_tickets l' = Some M \<and> int (length (tickets l')) \<le> M"
    using purchase_keeps_cap [of s m l M sp ctx count l'] by simp
  from r show "max_tickets l' = Some M" ..
  from r show "int (length (tickets l')) \<le> M" ..
next
  assume h: "run sp Map.empty cmds k = Some l2 \<and> max_tickets l2 = Some M2 \<and> 0 \<le> M2"
  show "int (length (tickets l2)) \<le> M2"
    by (rule run_keeps_caps [of Map.empty sp cmds k l2 M2]) (use h in simp_all)
qed

theorem capacity_witness:
  "buy_tickets example_ctx one_sold 2 = Inl (NotEnoughTickets 1)
   \<and> exec split_words one_sold (Buy example_ctx 2) = one_sold
   \<and> (\<exists>l. run split_words Map.empty example_commands 500 = Some l
         \<and> max_tickets l = Some 2 \<and> int (length (tickets l)) \<le> 2)"
proof -
  have "map_option (\<lambda>l. (max_tickets l, length (tickets l))) (one_sold 500) = Some (Some 2, 1)"
    by code_simp
  then obtain l where l: "one_sold 500 = Some l" "max_tickets l = Some 2" "length (tickets l) = 1"
    by auto
  have t: "target example_ctx one_sold = Some 500"
    by code_simp
  have c: "in_display_channel example_ctx"
    by (simp add: example_ctx_def)
  have "map_option max_tickets (run split_words Map.empty example_commands 500) = Some (Some 2)"
    by code_simp
  then obtain l2 where l2: "run split_words Map.empty example_commands 500 = Some l2"
    "max_tickets l2 = Some 2"
    by auto
  from capacity [where s = one_sold and m = 500 and l = l and M = 2 and ctx = example_ctx
      and count = 2 and sp = split_words and cmds = example_commands and k = 500
      and ?l2.0 = l2 and ?M2.0 = 2] l t c l2
  show ?thesis by simp
qed

text \<open>
  C1 as the specification states it fails for a negative cap, which \<^verbatim>\<open>lottery_create\<close>
  accepts like any other integer: the new lottery holds no ticket, and that is more
  than its cap.
\<close>

theorem negative_cap_exceeded:
  "(case run split_words Map.empty
           [Create example_ctx ''create'' (Some ''Sword 1h 50 -5'')] 500 of
      None \<Rightarrow> False
    | Some l \<Rightarrow> max_tickets l = Some (- 5) \<and> \<not> int (length (tickets l)) \<le> - 5)"
  by code_simp

section \<open>Ticket codes of a purchase\<close>


lemma length_gen_ticket_code: "length (gen_ticket_code u) = 8"
  by (simp add: gen_ticket_code_def uuid_hex_def)

lemma code_tickets_for: "map code (tickets_for ctx cs) = cs"
  by (simp add: tickets_for_def comp_def)

text \<open>
  C3, as the code has it. The codes of a purchase are the first eight hexadecimal digits,
  in upper case, of the UUIDs drawn, one per ticket, and they are appended as drawn:
  nothing compares a new code with the lottery's codes. So the codes of the lottery are
  pairwise distinct after the purchase exactly when they were before, the drawn codes
  differ from each other, and none of them was there already.
\<close>

theorem codes_as_drawn:
  assumes "buy_tickets ctx s count = Inr (s', cs)"
  shows "\<exists>m l l'. target ctx s = Some m \<and> s m = Some l \<and> s' m = Some l'
      \<and> cs = map (\<lambda>k. gen_ticket_code (uuid4 ctx k)) [0..<nat count]
      \<and> map code (tickets l') = map code (tickets l) @ cs
      \<and> (distinct (map code (tickets l')) \<longleftrightarrow>
           distinct (map code (tickets l)) \<and> distinct cs
           \<and> set (map code (tickets l)) \<inter> set cs = {})
      \<and> (\<forall>c \<in> set cs. length c = 8)"
proof -
  from assms obtain m l where t: "target ctx s = Some m" and l: "s m = Some l"
    and cs: "cs = drawn_codes ctx (nat count)"
    and s': "s' = s(m \<mapsto> l\<lparr>tickets := tickets l @ tickets_for ctx cs\<rparr>)"
    unfolding buy_success by blast
  let ?l' = "l\<lparr>tickets := tickets l @ tickets_for ctx cs\<rparr>"
  have 1: "s' m = Some ?l'" by (simp add: s')
  have 2: "map code (tickets ?l') = map code (tickets l) @ cs"
    by (simp add: code_tickets_for)
  have 3: "\<forall>c \<in> set cs. length c = 8"
    by (auto simp: cs drawn_codes_def length_gen_ticket_code)
  have 4: "cs = map (\<lambda>k. gen_ticket_code (uuid4 ctx k)) [0..<nat count]"
    by (simp add: cs drawn_codes_def)
  have 5: "distinct (map code (tickets ?l')) \<longleftrightarrow>
           distinct (map code (tickets l)) \<and> distinct cs
           \<and> set (map code (tickets l)) \<inter> set cs = {}"
    unfolding 2 by (rule distinct_append)
  from t l 1 2 3 4 5 show ?thesis by blast
qed

theorem codes_as_drawn_witness:
  "\<exists>s' l'. buy_tickets spread_ctx example_store 2 = Inr (s', [''00000001'', ''00000002''])
     \<and> s' 500 = Some l' \<and> map code (tickets l') = [''00000001'', ''00000002'']
     \<and> distinct (map code (tickets l'))"
proof -
  have "map_sum id snd (buy_tickets spread_ctx example_store 2)
      = Inr [''00000001'', ''00000002'']"
    by code_simp
  then obtain s' where b: "buy_tickets spread_ctx example_store 2 = Inr (s', [''00000001'', ''00000002''])"
    by (cases "buy_tickets spread_ctx example_store 2") auto
  have t: "target spread_ctx example_store = Some 500"
    by code_simp
  have e: "map_option tickets (example_store 500) = Some []"
    by code_simp
  from codes_as_drawn [OF b] b t e show ?thesis
    by auto
qed

text \<open>
  C3 as the specification states it fails: two different version-4 UUIDs with the same
  first eight digits give one purchase two tickets with the same code.
\<close>

theorem duplicate_codes_sold:
  "example_uuid 0 \<noteq> example_uuid 1
   \<and> (case run split_words Map.empty
           [Create example_ctx ''create'' (Some ''Sword 1h 50 2''), Buy example_ctx 2] 500 of
        None \<Rightarrow> False
      | Some l \<Rightarrow> map code (tickets l) = [''3F2A9C1E'', ''3F2A9C1E'']
           \<and> \<not> distinct (map code (tickets l)))"
  by code_simp

section \<open>What a purchase depends on\<close>

lemma sell_now: "sell (ctx\<lparr>now := t\<rparr>) k n acc = sell ctx k n acc"
  by (cases acc) (simp add: sell_eq)

lemma buy_ignores_clock: "buy_tickets (ctx\<lparr>now := t\<rparr>) s count = buy_tickets ctx s count"
  by (auto simp: buy_tickets_def sell_now Let_def split: option.splits)

lemma buy_succeeds_iff:
  "(\<exists>r. buy_tickets ctx s count = Inr r) \<longleftrightarrow>
     0 < count \<and> in_display_channel ctx \<and>
     (\<exists>m l. target ctx s = Some m \<and> s m = Some l
        \<and> (\<forall>M. max_tickets l = Some M \<longrightarrow> int (length (tickets l)) + count \<le> M))"
proof -
  have "(\<exists>r. buy_tickets ctx s count = Inr r) = (\<exists>s' cs. buy_tickets ctx s count = Inr (s', cs))"
    by auto
  then show ?thesis unfolding buy_success by blast
qed

lemma target_end_time:
  assumes "s m = Some l"
  shows "target ctx (s(m \<mapsto> l\<lparr>end_time := e\<rparr>)) = target ctx s"
proof -
  have "(\<lambda>k. (s(m \<mapsto> l\<lparr>end_time := e\<rparr>)) k \<noteq> None) = (\<lambda>k. s k \<noteq> None)"
    using assms by auto
  then show ?thesis by (simp add: target_def)
qed

lemma buy_ignores_end_time:
  assumes "s m = Some l"
  shows "(\<exists>r. buy_tickets ctx (s(m \<mapsto> l\<lparr>end_time := e\<rparr>)) count = Inr r)
     \<longleftrightarrow> (\<exists>r. buy_tickets ctx s count = Inr r)"
  unfolding buy_succeeds_iff target_end_time [of s m l, OF assms]
  using assms by (cases "target ctx s = Some m") auto

text \<open>
  C4, as the code has it. A purchase succeeds exactly when the count is positive, the
  command is given in the display channel, one of the last 50 messages is a lottery of
  the store, and its cap admits the count. Neither the clock nor the lottery's end time
  is read: the result is the same at any time, and a purchase succeeds for one end
  time exactly when it does for any other.
\<close>

theorem purchase_conditions:
  "((\<exists>r. buy_tickets ctx s count = Inr r) \<longleftrightarrow>
      0 < count \<and> in_display_channel ctx \<and>
      (\<exists>m l. target ctx s = Some m \<and> s m = Some l
         \<and> (\<forall>M. max_tickets l = Some M \<longrightarrow> int (length (tickets l)) + count \<le> M)))
   \<and> buy_tickets (ctx\<lparr>now := t\<rparr>) s count = buy_tickets ctx s count
   \<and> (s k = Some lot \<longrightarrow>
        ((\<exists>r. buy_tickets ctx (s(k \<mapsto> lot\<lparr>end_time := e\<rparr>)) count = Inr r)
          \<longleftrightarrow> (\<exists>r. buy_tickets ctx s count = Inr r)))"
  using buy_succeeds_iff [where ctx = ctx and s = s and count = count]
    buy_ignores_clock [where ctx = ctx and t = t and s = s and count = count]
    buy_ignores_end_time [where s = s and m = k and l = lot and ctx = ctx and e = e and count = count]
  by blast


theorem purchase_conditions_witness:
  "(\<exists>r. buy_tickets example_ctx short_store 1 = Inr r)
   \<and> buy_tickets late_ctx short_store 1 = buy_tickets example_ctx short_store 1
   \<and> (\<exists>l. short_store 500 = Some l
         \<and> (\<exists>r. buy_tickets example_ctx (short_store(500 \<mapsto> l\<lparr>end_time := 0\<rparr>)) 1 = Inr r))"
proof -
  have "map_option max_tickets (short_store 500) = Some None"
    by code_simp
  then obtain l where l: "short_store 500 = Some l" "max_tickets l = None"
    by auto
  have t: "target example_ctx short_store = Some 500"
    by code_simp
  have c: "in_display_channel example_ctx"
    by (simp add: example_ctx_def)
  note p = purchase_conditions [where ctx = example_ctx and s = short_store and count = 1
      and t = 2000 and k = 500 and lot = l and e = 0]
  from p l t c have 1: "\<exists>r. buy_tickets example_ctx short_store 1 = Inr r"
    by simp
  from p have 2: "buy_tickets late_ctx short_store 1 = buy_tickets example_ctx short_store 1"
    by (simp add: late_ctx_def)
  from p l 1 have 3: "\<exists>r. buy_tickets example_ctx (short_store(500 \<mapsto> l\<lparr>end_time := 0\<rparr>)) 1 = Inr r"
    by simp
  from 1 2 3 l show ?thesis by blast
qed

text \<open>
  C4 as the specification states it fails: a lottery that ended at time 1010 and is still
  in the store sells a ticket at time 2000.
\<close>

theorem expired_lottery_sells:
  "map_option end_time (short_store 500) = Some 1010 \<and> now late_ctx = 2000
   \<and> map_sum id snd (buy_tickets late_ctx short_store 1) = Inr [''3F2A9C1E'']
   \<and> map_option (\<lambda>l. length (tickets l)) (exec split_words short_store (Buy late_ctx 1) 500)
       = Some 1"
  by code_simp

section \<open>Finalization, once\<close>


lemma finalize_absent: "s m = None \<Longrightarrow> finalize_lottery ctx s m = (s, None)"
  by (simp add: finalize_lottery_def fun_upd_idem)

lemma finalize_announces: "(snd (finalize_lottery ctx s m) = None) = (s m = None)"
  by (auto simp: finalize_lottery_def random_choice_def Let_def split: option.splits)

text \<open>
  C2. Finalization takes the lottery out of the dictionary first, whatever it decides
  afterwards, and announces something exactly when the lottery was there. A second
  trigger for the same lottery, from a timer or from an administrator, finds it absent:
  the dictionary stays as it is and nothing is announced.
\<close>

theorem finalize_exactly_once:
  "fst (finalize_lottery ctx s m) = s(m := None)
   \<and> (snd (finalize_lottery ctx s m) = None) = (s m = None)
   \<and> finalize_lottery ctx' (fst (finalize_lottery ctx s m)) m
        = (fst (finalize_lottery ctx s m), None)
   \<and> admin_end ctx' (fst (finalize_lottery ctx s m)) m
        = (fst (finalize_lottery ctx s m), None,
           if manage_guild ctx' then NoLotteryWithThatId else MissingPermissions)
   \<and> exec sp (exec sp s (Finalize ctx m)) (Finalize ctx' m) = exec sp s (Finalize ctx m)"
proof -
  have gone: "fst (finalize_lottery ctx s m) m = None"
    by (simp add: finalize_store)
  have 3: "finalize_lottery ctx' (fst (finalize_lottery ctx s m)) m
        = (fst (finalize_lottery ctx s m), None)"
    using gone by (rule finalize_absent)
  have 4: "admin_end ctx' (fst (finalize_lottery ctx s m)) m
        = (fst (finalize_lottery ctx s m), None,
           if manage_guild ctx' then NoLotteryWithThatId else MissingPermissions)"
    using gone by (simp add: admin_end_def)
  have 5: "exec sp (exec sp s (Finalize ctx m)) (Finalize ctx' m) = exec sp s (Finalize ctx m)"
    by (simp add: 3)
  from finalize_store finalize_announces 3 4 5 show ?thesis by blast
qed

lemma finalize_no_sale:
  assumes "s m = Some l" "tickets l = []"
  shows "snd (finalize_lottery ctx s m) = Some (NoTicketsSold (item l))"
  using assms by (simp add: finalize_lottery_def)

lemma finalize_winner:
  assumes "s m = Some l" "tickets l \<noteq> []"
  shows "snd (finalize_lottery ctx s m) =
     Some (LotteryEnded (item l) (buyer_id (tickets l ! randbelow ctx (length (tickets l))))
        (code (tickets l ! randbelow ctx (length (tickets l)))) (seller_id l))"
  using assms by (simp add: finalize_lottery_def random_choice_def)

text \<open>
  C5. A lottery without tickets is announced as not sold, with the item and no winner.
  A lottery with tickets announces one ticket of its list, the one at the index that
  \<^verbatim>\<open>random.choice\<close> draws below the length of the list, with that ticket's buyer and
  code. Each index announces the ticket at that position, so among the equally likely
  indices a buyer wins in as many as the tickets the buyer holds.
\<close>

theorem finalize_outcome:
  assumes "s m = Some l"
  shows "(tickets l = [] \<longrightarrow> snd (finalize_lottery ctx s m) = Some (NoTicketsSold (item l)))
    \<and> (tickets l \<noteq> [] \<and> randbelow ctx (length (tickets l)) < length (tickets l) \<longrightarrow>
         (\<exists>w \<in> set (tickets l). w = tickets l ! randbelow ctx (length (tickets l))
            \<and> snd (finalize_lottery ctx s m)
                = Some (LotteryEnded (item l) (buyer_id w) (code w) (seller_id l))))
    \<and> (\<forall>j < length (tickets l).
          snd (finalize_lottery (ctx\<lparr>randbelow := \<lambda>n. j\<rparr>) s m)
            = Some (LotteryEnded (item l) (buyer_id (tickets l ! j)) (code (tickets l ! j))
                 (seller_id l)))
    \<and> (\<forall>b. card {j. j < length (tickets l)
                \<and> (\<exists>c. snd (finalize_lottery (ctx\<lparr>randbelow := \<lambda>n. j\<rparr>) s m)
                         = Some (LotteryEnded (item l) b c (seller_id l)))}
          = length (filter (\<lambda>t. buyer_id t = b) (tickets l)))"
proof (intro conjI impI allI)
  assume "tickets l = []"
  with assms show "snd (finalize_lottery ctx s m) = Some (NoTicketsSold (item l))"
    by (rule finalize_no_sale [of s m l])
next
  assume h: "tickets l \<noteq> [] \<and> randbelow ctx (length (tickets l)) < length (tickets l)"
  then have "tickets l ! randbelow ctx (length (tickets l)) \<in> set (tickets l)"
    by simp
  then show "\<exists>w \<in> set (tickets l). w = tickets l ! randbelow ctx (length (tickets l))
            \<and> snd (finalize_lottery ctx s m)
                = Some (LotteryEnded (item l) (buyer_id w) (code w) (seller_id l))"
    using finalize_winner [of s m l ctx, OF assms] h by simp
next
  fix j assume "j < length (tickets l)"
  then have "tickets l \<noteq> []" by auto
  from finalize_winner [of s m l "ctx\<lparr>randbelow := \<lambda>n. j\<rparr>", OF assms this]
  show "snd (finalize_lottery (ctx\<lparr>randbelow := \<lambda>n. j\<rparr>) s m)
            = Some (LotteryEnded (item l) (buyer_id (tickets l ! j)) (code (tickets l ! j))
                 (seller_id l))"
    by simp
next
  fix b
  have "{j. j < length (tickets l)
                \<and> (\<exists>c. snd (finalize_lottery (ctx\<lparr>randbelow := \<lambda>n. j\<rparr>) s m)
                         = Some (LotteryEnded (item l) b c (seller_id l)))}
      = {j. j < length (tickets l) \<and> buyer_id (tickets l ! j) = b}"
  proof (rule Collect_cong, rule conj_cong [OF refl])
    fix j assume "j < length (tickets l)"
    then have "tickets l \<noteq> []" by auto
    from finalize_winner [of s m l "ctx\<lparr>randbelow := \<lambda>n. j\<rparr>", OF assms this]
    show "(\<exists>c. snd (finalize_lottery (ctx\<lparr>randbelow := \<lambda>n. j\<rparr>) s m)
                         = Some (LotteryEnded (item l) b c (seller_id l)))
        = (buyer_id (tickets l ! j) = b)"
      by auto
  qed
  then show "card {j. j < length (tickets l)
                \<and> (\<exists>c. snd (finalize_lottery (ctx\<lparr>randbelow := \<lambda>n. j\<rparr>) s m)
                         = Some (LotteryEnded (item l) b c (seller_id l)))}
          = length (filter (\<lambda>t. buyer_id t = b) (tickets l))"
    by (simp add: length_filter_conv_card)
qed


theorem finalize_outcome_witness:
  "snd (finalize_lottery example_ctx example_store 500) = Some (NoTicketsSold ''Sword'')
   \<and> snd (finalize_lottery example_ctx two_to_one 500)
        = Some (LotteryEnded ''Sword'' 7 ''3F2A9C1E'' 7)
   \<and> snd (finalize_lottery (example_ctx\<lparr>randbelow := \<lambda>n. 2\<rparr>) two_to_one 500)
        = Some (LotteryEnded ''Sword'' 8 ''3F2A9C1E'' 7)
   \<and> card {j. j < 3 \<and> (\<exists>c. snd (finalize_lottery (example_ctx\<lparr>randbelow := \<lambda>n. j\<rparr>)
                                  two_to_one 500)
                         = Some (LotteryEnded ''Sword'' 7 c 7))} = 2"
proof -
  have "map_option (\<lambda>l. (item l, tickets l)) (example_store 500) = Some (''Sword'', [])"
    by code_simp
  then obtain l0 where l0: "example_store 500 = Some l0" "item l0 = ''Sword''" "tickets l0 = []"
    by auto
  have "map_option (\<lambda>l. (item l, seller_id l, tickets l)) (two_to_one 500)
      = Some (''Sword'', 7, [\<lparr>code = ''3F2A9C1E'', buyer_id = 7\<rparr>,
          \<lparr>code = ''3F2A9C1E'', buyer_id = 7\<rparr>, \<lparr>code = ''3F2A9C1E'', buyer_id = 8\<rparr>])"
    by code_simp
  then obtain l where l: "two_to_one 500 = Some l" "item l = ''Sword''" "seller_id l = 7"
    "tickets l = [\<lparr>code = ''3F2A9C1E'', buyer_id = 7\<rparr>,
          \<lparr>code = ''3F2A9C1E'', buyer_id = 7\<rparr>, \<lparr>code = ''3F2A9C1E'', buyer_id = 8\<rparr>]"
    by auto
  from finalize_outcome [of example_store 500 l0 example_ctx, OF l0(1)] l0
  have 1: "snd (finalize_lottery example_ctx example_store 500) = Some (NoTicketsSold ''Sword'')"
    by simp
  note f = finalize_outcome [of two_to_one 500 l example_ctx, OF l(1)]
  have rb: "randbelow example_ctx (length (tickets l)) = 0"
    by (simp add: example_ctx_def)
  have len: "tickets l \<noteq> []" "0 < length (tickets l)" "2 < length (tickets l)"
    using l(4) by simp_all
  have t0: "tickets l ! 0 = \<lparr>code = ''3F2A9C1E'', buyer_id = 7\<rparr>"
    and t2: "tickets l ! 2 = \<lparr>code = ''3F2A9C1E'', buyer_id = 8\<rparr>"
    using l(4) by simp_all
  from f have "tickets l \<noteq> [] \<and> randbelow example_ctx (length (tickets l)) < length (tickets l)
      \<longrightarrow> (\<exists>w \<in> set (tickets l). w = tickets l ! randbelow example_ctx (length (tickets l))
            \<and> snd (finalize_lottery example_ctx two_to_one 500)
                = Some (LotteryEnded (item l) (buyer_id w) (code w) (seller_id l)))"
    by blast
  with len rb have "snd (finalize_lottery example_ctx two_to_one 500)
      = Some (LotteryEnded (item l) (buyer_id (tickets l ! 0)) (code (tickets l ! 0)) (seller_id l))"
    by auto
  then have 2: "snd (finalize_lottery example_ctx two_to_one 500)
        = Some (LotteryEnded ''Sword'' 7 ''3F2A9C1E'' 7)"
    by (simp add: t0 l(2,3))
  from f len(3) have "snd (finalize_lottery (example_ctx\<lparr>randbelow := \<lambda>n. 2\<rparr>) two_to_one 500)
      = Some (LotteryEnded (item l) (buyer_id (tickets l ! 2)) (code (tickets l ! 2)) (seller_id l))"
    by blast
  then have 3: "snd (finalize_lottery (example_ctx\<lparr>randbelow := \<lambda>n. 2\<rparr>) two_to_one 500)
        = Some (LotteryEnded ''Sword'' 8 ''3F2A9C1E'' 7)"
    by (simp add: t2 l(2,3))
  from f have "card {j. j < length (tickets l)
                \<and> (\<exists>c. snd (finalize_lottery (example_ctx\<lparr>randbelow := \<lambda>n. j\<rparr>) two_to_one 500)
                         = Some (LotteryEnded (item l) 7 c (seller_id l)))}
          = length (filter (\<lambda>t. buyer_id t = 7) (tickets l))"
    by blast
  moreover have "length (tickets l) = 3" "length (filter (\<lambda>t. buyer_id t = 7) (tickets l)) = 2"
    using l(4) by simp_all
  ultimately have 4: "card {j. j < 3 \<and> (\<exists>c. snd (finalize_lottery (example_ctx\<lparr>randbelow := \<lambda>n. j\<rparr>)
                                  two_to_one 500)
                         = Some (LotteryEnded ''Sword'' 7 c 7))} = 2"
    by (simp add: l(2,3))
  from 1 2 3 4 show ?thesis by blast
qed

section \<open>Loading and saving\<close>











text \<open>
  C8, as the code has it. The file is opened for writing in place, which empties it, and
  the serialisation of the whole dictionary is written into it. A save that completes
  leaves exactly the new snapshot. A save that fails at the open leaves the file as it
  was. A save that fails while writing leaves the chunks written so far, a prefix of the
  new snapshot, whatever the file held before.
\<close>

theorem save_in_place:
  "save_data json_dump s None file = (Some (concat (json_dump s)), None)
   \<and> save_data json_dump s (Some OpenFails) file = (file, Some OSError)
   \<and> save_data json_dump s (Some (WriteFails k)) file
        = (Some (concat (take k (json_dump s))), Some OSError)
   \<and> prefix (concat (take k (json_dump s))) (concat (json_dump s))
   \<and> save_data json_dump s (Some (WriteFails k)) file
        = save_data json_dump s (Some (WriteFails k)) None"
proof -
  have "concat (json_dump s) = concat (take k (json_dump s)) @ concat (drop k (json_dump s))"
    by (simp flip: concat_append)
  then have "prefix (concat (take k (json_dump s))) (concat (json_dump s))"
    by (metis prefixI)
  then show ?thesis by (simp add: save_data_def)
qed

text \<open>
  C8 as the specification states it fails: a write that fails after the first chunk
  leaves a file that no longer holds the previous snapshot (lottery 500) and loads as
  the empty dictionary.
\<close>

theorem failed_write_loses_snapshot:
  "load_data example_json_load (Some example_snapshot) = Inr (JObj [(''500'', JObj [])])
   \<and> save_data example_json_dump Map.empty (Some (WriteFails 1)) (Some example_snapshot)
        = (Some ''{'', Some OSError)
   \<and> load_data example_json_load (Some ''{'') = Inr (JObj [])"
  by code_simp

end
